theory Spec2Isabelle
  imports Main
begin

section \<open>Bucket notification handlers (cmd/bucket-notification-handlers.go)\<close>

text \<open>
  The Go file holds the handlers and the configuration operations of bucket event
  notification. Its collaborators (the object layer, the event notifier registry, the
  namespace lock, the peer RPC, the HTTP response writer and the encoders of the standard
  library) are declared elsewhere. They appear here either as fields of an environment
  record (pure parameters: any behaviour is allowed) or as small state transformers on a
  \<open>world\<close> record, each of which also appends the call to a chronological trace, so
  that the order of the calls an operation makes can be stated.

  Calls to the logger (\<open>errorIf\<close>) have no effect on any value modelled and are left out.
  One run of one operation is modelled: interleavings of concurrent operations are not.
  \<open>PutBucketNotificationHandler\<close> and \<open>removeNotificationConfig\<close> take no part in the
  properties proved and are not embedded.
\<close>

subsection \<open>Data model\<close>

type_synonym bucket = string
type_synonym bytes = string

text \<open>
  The structs below are the ones the file builds by literal (lines 295-348):
  \<open>filterRule\<close>, \<open>keyFilter\<close>, \<open>ServiceConfig\<close> (its anonymous \<open>Filter\<close> struct has the one
  field \<open>Key\<close>), \<open>topicConfig\<close> and \<open>listenerConfig\<close>.
\<close>

record filterRule =
  Name :: string
  Value :: string

record keyFilter =
  FilterRules :: "filterRule list"

record ServiceConfig =
  Events :: "string list"
  FilterKey :: keyFilter
  ID :: string

record topicConfig =
  TopicARN :: string
  ServiceConfig :: ServiceConfig

record listenerConfig =
  TopicConfig :: topicConfig
  TargetServer :: string

text \<open>
  Modelled from the spec: the declaration of \<open>notificationConfig\<close> is not in the file.
  Section 3 of the specification describes it as a mapping from destination identifier to
  the destination's descriptor, empty by default; it is kept as an association list, and
  the zero value \<open>&notificationConfig{}\<close> is the empty one.
\<close>

type_synonym notificationConfig = "(string \<times> ServiceConfig) list"

definition emptyNotificationConfig :: notificationConfig where
  "emptyNotificationConfig = []"

text \<open>
  Modelled from the spec: the declaration of \<open>NotificationEvent\<close> is not in the file.
  The specification identifies an event by bucket, object key and event type.
\<close>

record NotificationEvent =
  EventBucket :: string
  EventKey :: string
  EventName :: string

text \<open>
  Go errors. \<open>ErrUnableToPersist\<close> stands for the value built by \<open>fmt.Errorf\<close> at line 177,
  whose text is determined by the configuration and the wrapped error; \<open>ErrOther\<close> is any
  error produced by a collaborator.
\<close>

datatype error =
    errInvalidArgument
  | errNoSuchNotifications
  | ErrUnableToPersist notificationConfig error
  | ErrOther string

text \<open>
  The API error codes the handlers below name; \<open>ErrCode n\<close> is any other code that
  \<open>checkAuth\<close>, \<open>toAPIErrorCode\<close> or a validation function may return.
\<close>

datatype APIErrorCode =
    ErrNone
  | ErrServerNotInitialized
  | ErrCode nat

subsection \<open>The world: durable store, registry, lock and trace\<close>

datatype event =
    EvLock bucket nat
  | EvUnlock bucket nat
  | EvGetBucketListenerConfig bucket
  | EvPersistNotificationConfig bucket notificationConfig "error option"
  | EvPersistListenerConfig bucket "listenerConfig list" "error option"
  | EvS3PeersUpdateBucketNotification bucket notificationConfig
  | EvS3PeersUpdateBucketListener bucket "listenerConfig list"
  | EvAddListenerChan string "error option"
  | EvRemoveListenerChan string
  | EvCloseChan string

record world =
  trace :: "event list"
  notificationStore :: "bucket \<rightharpoonup> notificationConfig"
  listenerStore :: "bucket \<rightharpoonup> listenerConfig list"
  notificationCfgs :: "bucket \<rightharpoonup> notificationConfig"
  listenerCfgs :: "bucket \<Rightarrow> listenerConfig list"
  listenerChans :: "string set"
  opsCounter :: nat

text \<open>
  \<open>notificationStore\<close> and \<open>listenerStore\<close> are the durable objects
  \<open>buckets/<bucket>/notification.xml\<close> and \<open>buckets/<bucket>/listener.json\<close>;
  \<open>notificationCfgs\<close>, \<open>listenerCfgs\<close> and \<open>listenerChans\<close> are the in-memory state of
  \<open>globalEventNotifier\<close> (a bucket without listeners has the nil sequence, here \<open>[]\<close>).
\<close>

record env =
  globalIsDistXL :: bool
  globalMinioAddr :: string
  serverRegion :: string
  minioTopic :: string
  snsTypeMinio :: string
  objectAPI :: bool
  persistNotificationErr :: "bucket \<Rightarrow> error option"
  persistListenerErr :: "bucket \<Rightarrow> error option"
  loadNotificationErr :: "bucket \<Rightarrow> error option"
  bucketInfoErr :: "bucket \<Rightarrow> error option"
  toAPIErrorCode :: "error \<Rightarrow> APIErrorCode"
  validateFilterValues :: "string list \<Rightarrow> APIErrorCode"
  checkEvent :: "string \<Rightarrow> APIErrorCode"
  xmlMarshal :: "notificationConfig option \<Rightarrow> error + bytes"
  jsonMarshal :: "(string \<rightharpoonup> NotificationEvent list option) \<Rightarrow> error + bytes"

text \<open>
  The environment holds the globals and the collaborators taken as parameters:
  \<open>objectAPI\<close> tells whether \<open>api.ObjectAPI()\<close> is non-nil; the four \<open>...Err\<close> fields are the
  outcome of the object layer's write, read and \<open>GetBucketInfo\<close> for a bucket;
  \<open>xmlMarshal\<close> and \<open>jsonMarshal\<close> are \<open>xml.Marshal\<close> and \<open>json.Marshal\<close> at the two types
  the file uses them at (a nil pointer, a nil slice and a nil map are \<open>None\<close>).
\<close>

definition logEvent :: "event \<Rightarrow> world \<Rightarrow> world" where
  "logEvent e w = w\<lparr>trace := trace w @ [e]\<rparr>"

text \<open>\<open>getOpsID\<close> is taken as a source of fresh identifiers: the n-th call returns n.\<close>

definition getOpsID :: "world \<Rightarrow> nat \<times> world" where
  "getOpsID w = (opsCounter w, w\<lparr>opsCounter := Suc (opsCounter w)\<rparr>)"

text \<open>
  Modelled from the spec: \<open>nsMutex.Lock\<close> and \<open>nsMutex.Unlock\<close> are the cluster-wide lock
  keyed by bucket name (section 4.5). Only the calls are recorded; waiting for a lock
  held by another operation is outside a single run.
\<close>

definition nsMutex_Lock :: "bucket \<Rightarrow> nat \<Rightarrow> world \<Rightarrow> world" where
  "nsMutex_Lock b opsID w = logEvent (EvLock b opsID) w"

definition nsMutex_Unlock :: "bucket \<Rightarrow> nat \<Rightarrow> world \<Rightarrow> world" where
  "nsMutex_Unlock b opsID w = logEvent (EvUnlock b opsID) w"

text \<open>
  Modelled from the spec: \<open>saveNotificationConfig(bucket, cfg) -> ok | error\<close> overwrites
  the stored configuration in place; on error the store keeps its value (section 4.2).
\<close>

definition persistNotificationConfig ::
  "env \<Rightarrow> bucket \<Rightarrow> notificationConfig \<Rightarrow> world \<Rightarrow> error option \<times> world" where
  "persistNotificationConfig en b ncfg w =
     (case persistNotificationErr en b of
        Some err \<Rightarrow> (Some err, logEvent (EvPersistNotificationConfig b ncfg (Some err)) w)
      | None \<Rightarrow>
          (None, logEvent (EvPersistNotificationConfig b ncfg None)
                   (w\<lparr>notificationStore := (notificationStore w)(b \<mapsto> ncfg)\<rparr>)))"

text \<open>Modelled from the spec: \<open>saveListenerConfigs(bucket, seq)\<close>, of the same shape.\<close>

definition persistListenerConfig ::
  "env \<Rightarrow> bucket \<Rightarrow> listenerConfig list \<Rightarrow> world \<Rightarrow> error option \<times> world" where
  "persistListenerConfig en b lcfgs w =
     (case persistListenerErr en b of
        Some err \<Rightarrow> (Some err, logEvent (EvPersistListenerConfig b lcfgs (Some err)) w)
      | None \<Rightarrow>
          (None, logEvent (EvPersistListenerConfig b lcfgs None)
                   (w\<lparr>listenerStore := (listenerStore w)(b \<mapsto> lcfgs)\<rparr>)))"

text \<open>
  Modelled from the spec: \<open>loadNotificationConfig(bucket) -> NotificationConfig | NotFound\<close>;
  absence is the distinguished error \<open>errNoSuchNotifications\<close> (section 4.2).
\<close>

definition loadNotificationConfig ::
  "env \<Rightarrow> bucket \<Rightarrow> world \<Rightarrow> notificationConfig option \<times> error option" where
  "loadNotificationConfig en b w =
     (case loadNotificationErr en b of
        Some err \<Rightarrow> (None, Some err)
      | None \<Rightarrow>
          (case notificationStore w b of
             None \<Rightarrow> (None, Some errNoSuchNotifications)
           | Some ncfg \<Rightarrow> (Some ncfg, None)))"

text \<open>
  Modelled from the spec: the broadcasts of section 4.4. Every node, the local one
  included, replaces its in-memory value; the local node's registry is the one kept here.
\<close>

definition S3PeersUpdateBucketNotification :: "bucket \<Rightarrow> notificationConfig \<Rightarrow> world \<Rightarrow> world" where
  "S3PeersUpdateBucketNotification b ncfg w =
     logEvent (EvS3PeersUpdateBucketNotification b ncfg)
       (w\<lparr>notificationCfgs := (notificationCfgs w)(b \<mapsto> ncfg)\<rparr>)"

definition S3PeersUpdateBucketListener :: "bucket \<Rightarrow> listenerConfig list \<Rightarrow> world \<Rightarrow> world" where
  "S3PeersUpdateBucketListener b lcfgs w =
     logEvent (EvS3PeersUpdateBucketListener b lcfgs)
       (w\<lparr>listenerCfgs := (listenerCfgs w)(b := lcfgs)\<rparr>)"

text \<open>
  Modelled from the spec: the registry operations of section 4.3.
  \<open>getListenerConfigs\<close> returns the cached view; \<open>addListener\<close> fails if the identifier
  already has a channel; \<open>removeListener\<close> is a no-op if it is absent.
\<close>

definition GetBucketListenerConfig :: "bucket \<Rightarrow> world \<Rightarrow> listenerConfig list \<times> world" where
  "GetBucketListenerConfig b w = (listenerCfgs w b, logEvent (EvGetBucketListenerConfig b) w)"

definition errListenerExists :: error where
  "errListenerExists = ErrOther ''listener channel already exists''"

definition AddListenerChan :: "string \<Rightarrow> world \<Rightarrow> error option \<times> world" where
  "AddListenerChan arn w =
     (if arn \<in> listenerChans w
      then (Some errListenerExists, logEvent (EvAddListenerChan arn (Some errListenerExists)) w)
      else (None, logEvent (EvAddListenerChan arn None)
                    (w\<lparr>listenerChans := insert arn (listenerChans w)\<rparr>)))"

definition RemoveListenerChan :: "string \<Rightarrow> world \<Rightarrow> world" where
  "RemoveListenerChan arn w =
     logEvent (EvRemoveListenerChan arn) (w\<lparr>listenerChans := listenerChans w - {arn}\<rparr>)"

definition closeChan :: "string \<Rightarrow> world \<Rightarrow> world" where
  "closeChan arn w = logEvent (EvCloseChan arn) w"

subsection \<open>PutBucketNotificationConfig (lines 162-185)\<close>

definition PutBucketNotificationConfig ::
  "env \<Rightarrow> bucket \<Rightarrow> notificationConfig option \<Rightarrow> world \<Rightarrow> error option \<times> world" where
  "PutBucketNotificationConfig en b ncfg w =
     (case ncfg of
        None \<Rightarrow> (Some errInvalidArgument, w)
      | Some cfg \<Rightarrow>
          (let (opsID, w1) = getOpsID w;
               w2 = nsMutex_Lock b opsID w1;
               (err, w3) = persistNotificationConfig en b cfg w2
           in case err of
                Some e \<Rightarrow> (Some (ErrUnableToPersist cfg e), nsMutex_Unlock b opsID w3)
              | None \<Rightarrow>
                  (None, nsMutex_Unlock b opsID (S3PeersUpdateBucketNotification b cfg w3))))"

subsection \<open>AddBucketListenerConfig (lines 366-395)\<close>

definition AddBucketListenerConfig ::
  "env \<Rightarrow> bucket \<Rightarrow> listenerConfig option \<Rightarrow> world \<Rightarrow> error option \<times> world" where
  "AddBucketListenerConfig en b lcfg w =
     (case lcfg of
        None \<Rightarrow> (Some errInvalidArgument, w)
      | Some l \<Rightarrow>
          (let (cached, w1) = GetBucketListenerConfig b w;
               lcfgs = cached @ [l];
               (opsID, w2) = getOpsID w1;
               w3 = nsMutex_Lock b opsID w2
           in if globalIsDistXL en then
                (let (err, w4) = persistListenerConfig en b lcfgs w3
                 in case err of
                      Some e \<Rightarrow> (Some e, nsMutex_Unlock b opsID w4)
                    | None \<Rightarrow>
                        (None, nsMutex_Unlock b opsID (S3PeersUpdateBucketListener b lcfgs w4)))
              else (None, nsMutex_Unlock b opsID (S3PeersUpdateBucketListener b lcfgs w3))))"

subsection \<open>RemoveBucketListenerConfig (lines 398-436)\<close>

text \<open>
  The search loop of lines 403-412. \<open>removeLoop all arn k rest\<close> is the loop at index \<open>k\<close>,
  with \<open>rest\<close> the entries from \<open>k\<close> on; it returns \<open>updatedLcfgs\<close> and \<open>found\<close>. At the first
  entry whose \<open>TopicARN\<close> is \<open>arn\<close> it builds \<open>append(listenerCfgs[:k], listenerCfgs[k+1:]...)\<close>
  and breaks; if the range ends, \<open>updatedLcfgs\<close> is still nil and \<open>found\<close> false.
\<close>

fun removeLoop ::
  "listenerConfig list \<Rightarrow> string \<Rightarrow> nat \<Rightarrow> listenerConfig list \<Rightarrow> listenerConfig list \<times> bool" where
  "removeLoop all arn k [] = ([], False)"
| "removeLoop all arn k (configuredLcfg # rest) =
     (if TopicARN (TopicConfig configuredLcfg) = arn
      then (take k all @ drop (k + 1) all, True)
      else removeLoop all arn (k + 1) rest)"

datatype panic = NilPointerDereference | InterfaceConversion

text \<open>
  The function returns nothing; \<open>Inl\<close> is the run-time panic of reading
  \<open>lcfg.TopicConfig.TopicARN\<close> through a nil \<open>lcfg\<close>, which the first iteration of the loop
  does (with no cached entry the loop body never runs).

  Sequences are values here. In Go the \<open>append\<close> of line 407 writes into the array behind
  \<open>listenerCfgs\<close>; whether the registry shares that array is decided by
  \<open>GetBucketListenerConfig\<close>, which is not in the file. The broadcast replaces the cached
  sequence, so the difference can show only after a removal whose persist call failed,
  and none of the numbered properties below speaks of the cache in that case.
\<close>

definition RemoveBucketListenerConfig ::
  "env \<Rightarrow> bucket \<Rightarrow> listenerConfig option \<Rightarrow> world \<Rightarrow> panic + world" where
  "RemoveBucketListenerConfig en b lcfg w =
     (let (cached, w1) = GetBucketListenerConfig b w
      in case lcfg of
           None \<Rightarrow> (if cached = [] then Inr w1 else Inl NilPointerDereference)
         | Some l \<Rightarrow>
             (let (updatedLcfgs, found) = removeLoop cached (TopicARN (TopicConfig l)) 0 cached
              in if \<not> found then Inr w1
                 else
                   (let (opsID, w2) = getOpsID w1;
                        w3 = nsMutex_Lock b opsID w2
                    in if globalIsDistXL en then
                         (let (err, w4) = persistListenerConfig en b updatedLcfgs w3
                          in case err of
                               Some e \<Rightarrow> Inr (nsMutex_Unlock b opsID w4)
                             | None \<Rightarrow>
                                 Inr (nsMutex_Unlock b opsID
                                        (S3PeersUpdateBucketListener b updatedLcfgs w4)))
                       else Inr (nsMutex_Unlock b opsID
                                   (S3PeersUpdateBucketListener b updatedLcfgs w3)))))"

subsection \<open>Requests and the response writer\<close>

text \<open>
  What the handlers read from the request: \<open>r.URL.Path\<close>, \<open>mux.Vars(r)["bucket"]\<close>, the
  result of \<open>checkAuth(r)\<close>, the three lists returned by
  \<open>getListenBucketNotificationResources(r.URL.Query())\<close>, and the value of
  \<open>time.Now().UTC().UnixNano()\<close> when the handler reads the clock.
\<close>

record request =
  urlPath :: string
  varsBucket :: bucket
  checkAuth :: APIErrorCode
  queryPrefixes :: "string list"
  querySuffixes :: "string list"
  queryEvents :: "string list"
  timeNow :: int

datatype response = ErrorResponse APIErrorCode string | SuccessResponse bytes

text \<open>
  The \<open>http.ResponseWriter\<close>: the response written by \<open>writeErrorResponse\<close> or
  \<open>writeSuccessResponse\<close>, whether \<open>setCommonHeaders\<close> ran, the arguments of the
  \<open>Write\<close> calls in order, the number of \<open>Flush\<close> calls, whether the dynamic type
  implements \<open>http.Flusher\<close>, and the error the client's connection answers the n-th
  \<open>Write\<close> call with (counted from 0).
\<close>

record ResponseWriter =
  response :: "response option"
  commonHeaders :: bool
  written :: "bytes list"
  flushes :: nat
  isFlusher :: bool
  writeErr :: "nat \<Rightarrow> error option"

definition writeErrorResponse :: "ResponseWriter \<Rightarrow> APIErrorCode \<Rightarrow> string \<Rightarrow> ResponseWriter" where
  "writeErrorResponse w code path = w\<lparr>response := Some (ErrorResponse code path)\<rparr>"

definition writeSuccessResponse :: "ResponseWriter \<Rightarrow> bytes \<Rightarrow> ResponseWriter" where
  "writeSuccessResponse w body = w\<lparr>response := Some (SuccessResponse body)\<rparr>"

definition setCommonHeaders :: "ResponseWriter \<Rightarrow> ResponseWriter" where
  "setCommonHeaders w = w\<lparr>commonHeaders := True\<rparr>"

definition Write :: "ResponseWriter \<Rightarrow> bytes \<Rightarrow> error option \<times> ResponseWriter" where
  "Write w bs = (writeErr w (length (written w)), w\<lparr>written := written w @ [bs]\<rparr>)"

definition Flush :: "ResponseWriter \<Rightarrow> ResponseWriter" where
  "Flush w = w\<lparr>flushes := Suc (flushes w)\<rparr>"

subsection \<open>GetBucketNotificationHandler (lines 43-78)\<close>

text \<open>Lines 69-77: marshal the configuration and write it, or the marshalling error.\<close>

definition marshalAndRespond ::
  "env \<Rightarrow> request \<Rightarrow> ResponseWriter \<Rightarrow> notificationConfig option \<Rightarrow> ResponseWriter" where
  "marshalAndRespond en r w nConfig =
     (case xmlMarshal en nConfig of
        Inl err \<Rightarrow> writeErrorResponse w (toAPIErrorCode en err) (urlPath r)
      | Inr notificationBytes \<Rightarrow> writeSuccessResponse w notificationBytes)"

definition GetBucketNotificationHandler ::
  "env \<Rightarrow> request \<Rightarrow> ResponseWriter \<Rightarrow> world \<Rightarrow> ResponseWriter" where
  "GetBucketNotificationHandler en r w wld =
     (if \<not> objectAPI en then writeErrorResponse w ErrServerNotInitialized (urlPath r)
      else if checkAuth r \<noteq> ErrNone then writeErrorResponse w (checkAuth r) (urlPath r)
      else
        (let bucket = varsBucket r;
             (nConfig, err) = loadNotificationConfig en bucket wld
         in case err of
              Some e \<Rightarrow>
                if e \<noteq> errNoSuchNotifications
                then writeErrorResponse w (toAPIErrorCode en e) (urlPath r)
                else marshalAndRespond en r w (Some emptyNotificationConfig)
            | None \<Rightarrow> marshalAndRespond en r w nConfig))"

subsection \<open>writeNotification and sendBucketNotification (lines 188-239)\<close>

definition crlf :: bytes where
  "crlf = [CHR 0x0D, CHR 0x0A]"

text \<open>
  The result is the writer afterwards and either the returned error (\<open>Inr\<close>) or the panic
  of the unchecked type assertion \<open>w.(http.Flusher)\<close> (\<open>Inl\<close>).
\<close>

definition writeNotification ::
  "env \<Rightarrow> ResponseWriter option \<Rightarrow> (string \<rightharpoonup> NotificationEvent list option) option
     \<Rightarrow> (panic + error option) \<times> ResponseWriter option" where
  "writeNotification en w notification =
     (case w of
        None \<Rightarrow> (Inr (Some errInvalidArgument), w)
      | Some rw \<Rightarrow>
          (case notification of
             None \<Rightarrow> (Inr (Some errInvalidArgument), w)
           | Some m \<Rightarrow>
               (case jsonMarshal en m of
                  Inl err \<Rightarrow> (Inr (Some err), w)
                | Inr notificationBytes \<Rightarrow>
                    (let (err, rw1) = Write rw (notificationBytes @ crlf)
                     in if \<not> isFlusher rw1 then (Inl InterfaceConversion, Some rw1)
                        else (Inr err, Some (Flush rw1))))))"

definition dummyEvents :: "string \<rightharpoonup> NotificationEvent list option" where
  "dummyEvents = [''Records'' \<mapsto> None]"

text \<open>
  One iteration of the loop takes one of the two cases of the \<open>select\<close>: a batch was
  received from \<open>arnListenerCh\<close>, or \<open>time.After(globalSNSConnAlive)\<close> fired first. The
  loop ends only when a write fails, so a session is given by the cases its iterations
  take; the function runs the loop over a finite prefix of them. \<open>Waiting\<close> is the loop
  blocked in \<open>select\<close> when the prefix is used up, \<open>Returned\<close> the \<open>return\<close> after a failed
  write, \<open>Panicked\<close> a panic inside \<open>writeNotification\<close>.
\<close>

datatype selected = Received "NotificationEvent list option" | KeepAlive

datatype loopOutcome =
    Waiting "ResponseWriter option"
  | Returned "ResponseWriter option"
  | Panicked panic "ResponseWriter option"

fun sendBucketNotification :: "env \<Rightarrow> ResponseWriter option \<Rightarrow> selected list \<Rightarrow> loopOutcome" where
  "sendBucketNotification en w [] = Waiting w"
| "sendBucketNotification en w (Received events # later) =
     (case writeNotification en w (Some [''Records'' \<mapsto> events]) of
        (Inl p, w') \<Rightarrow> Panicked p w'
      | (Inr (Some err), w') \<Rightarrow> Returned w'
      | (Inr None, w') \<Rightarrow> sendBucketNotification en w' later)"
| "sendBucketNotification en w (KeepAlive # later) =
     (case writeNotification en w (Some dummyEvents) of
        (Inl p, w') \<Rightarrow> Panicked p w'
      | (Inr (Some err), w') \<Rightarrow> Returned w'
      | (Inr None, w') \<Rightarrow> sendBucketNotification en w' later)"

fun writerOf :: "loopOutcome \<Rightarrow> ResponseWriter option" where
  "writerOf (Waiting w) = w"
| "writerOf (Returned w) = w"
| "writerOf (Panicked p w) = w"

text \<open>
  The value under the key \<open>"Records"\<close> that an iteration marshals, and the unit it then
  hands to \<open>Write\<close>: the serialization of the one-key object followed by CR LF.
\<close>

fun selectedRecords :: "selected \<Rightarrow> NotificationEvent list option" where
  "selectedRecords (Received events) = events"
| "selectedRecords KeepAlive = None"

definition recordsFrame :: "env \<Rightarrow> NotificationEvent list option \<Rightarrow> bytes option" where
  "recordsFrame en v =
     (case jsonMarshal en [''Records'' \<mapsto> v] of
        Inl err \<Rightarrow> None
      | Inr notificationBytes \<Rightarrow> Some (notificationBytes @ [CHR 0x0D, CHR 0x0A]))"

subsection \<open>ListenBucketNotificationHandler (lines 242-362)\<close>

text \<open>The loop of lines 272-277: the code of the first event that \<open>checkEvent\<close> rejects.\<close>

fun checkEvents :: "env \<Rightarrow> string list \<Rightarrow> APIErrorCode" where
  "checkEvents en [] = ErrNone"
| "checkEvents en (event # later) =
     (if checkEvent en event \<noteq> ErrNone then checkEvent en event else checkEvents en later)"

text \<open>\<open>fmt.Sprintf("%d", n)\<close> for an \<open>int64\<close>.\<close>

function decimalNat :: "nat \<Rightarrow> string" where
  "decimalNat n =
     (if n < 10 then [char_of (48 + n)]
      else decimalNat (n div 10) @ [char_of (48 + n mod 10)])"
  by pat_completeness auto
termination
  by (relation "measure id") auto

declare decimalNat.simps [simp del]

definition formatInt :: "int \<Rightarrow> string" where
  "formatInt i = (if i < 0 then CHR ''-'' # decimalNat (nat (- i)) else decimalNat (nat i))"

definition accountID :: "request \<Rightarrow> string" where
  "accountID r = formatInt (timeNow r)"

definition accountARN :: "env \<Rightarrow> request \<Rightarrow> string" where
  "accountARN en r =
     minioTopic en @ '':'' @ serverRegion en @ '':'' @ accountID r @ '':'' @
     snsTypeMinio en @ ''-'' @ globalMinioAddr en"

definition filterRulesOf :: "request \<Rightarrow> filterRule list" where
  "filterRulesOf r =
     map (\<lambda>prefix. \<lparr>Name = ''prefix'', Value = prefix\<rparr>) (queryPrefixes r) @
     map (\<lambda>suffix. \<lparr>Name = ''suffix'', Value = suffix\<rparr>) (querySuffixes r)"

definition listenerConfigOf :: "env \<Rightarrow> request \<Rightarrow> listenerConfig" where
  "listenerConfigOf en r =
     \<lparr>TopicConfig =
        \<lparr>TopicARN = accountARN en r,
         ServiceConfig = \<lparr>Events = queryEvents r,
                    FilterKey = \<lparr>FilterRules = filterRulesOf r\<rparr>,
                    ID = ''sns-'' @ accountID r\<rparr>\<rparr>,
      TargetServer = globalMinioAddr en\<rparr>"

text \<open>
  \<open>Finished\<close>: the handler has returned; \<open>Streaming\<close>: it is inside the streaming loop, no
  deferred call has run yet; \<open>HandlerPanic\<close>: it left by a panic, after its deferred calls.
\<close>

datatype handlerOutcome =
    Finished ResponseWriter world
  | Streaming ResponseWriter world
  | HandlerPanic panic ResponseWriter world

text \<open>
  The deferred calls of a handler that has reached the streaming loop, in the order Go
  runs them (last registered first): \<open>RemoveBucketListenerConfig\<close> (line 355),
  \<open>RemoveListenerChan\<close> (line 340), \<open>close(nEventCh)\<close> (line 331). The later two run also
  if the first one panics.
\<close>

definition streamingDefers ::
  "env \<Rightarrow> bucket \<Rightarrow> listenerConfig \<Rightarrow> string \<Rightarrow> world \<Rightarrow> panic option \<times> world" where
  "streamingDefers en b lc arn wld =
     (case RemoveBucketListenerConfig en b (Some lc) wld of
        Inr wld' \<Rightarrow> (None, closeChan arn (RemoveListenerChan arn wld'))
      | Inl p \<Rightarrow> (Some p, closeChan arn (RemoveListenerChan arn wld)))"

text \<open>
  The handler's writer is not nil, so the loop hands a writer back; \<open>writerAfter\<close> reads it.
\<close>

definition writerAfter :: "ResponseWriter \<Rightarrow> ResponseWriter option \<Rightarrow> ResponseWriter" where
  "writerAfter w w' = (case w' of Some rw \<Rightarrow> rw | None \<Rightarrow> w)"

text \<open>The units handed to \<open>Write\<close> since the writer was \<open>rw\<close>.\<close>

definition framesSince :: "ResponseWriter \<Rightarrow> ResponseWriter option \<Rightarrow> bytes list" where
  "framesSince rw w' = drop (length (written rw)) (written (writerAfter rw w'))"

definition ListenBucketNotificationHandler ::
  "env \<Rightarrow> request \<Rightarrow> selected list \<Rightarrow> ResponseWriter \<Rightarrow> world \<Rightarrow> handlerOutcome" where
  "ListenBucketNotificationHandler en r session w wld =
     (if \<not> objectAPI en
      then Finished (writeErrorResponse w ErrServerNotInitialized (urlPath r)) wld
      else if checkAuth r \<noteq> ErrNone
      then Finished (writeErrorResponse w (checkAuth r) (urlPath r)) wld
      else if validateFilterValues en (queryPrefixes r) \<noteq> ErrNone
      then Finished (writeErrorResponse w (validateFilterValues en (queryPrefixes r)) (urlPath r)) wld
      else if validateFilterValues en (querySuffixes r) \<noteq> ErrNone
      then Finished (writeErrorResponse w (validateFilterValues en (querySuffixes r)) (urlPath r)) wld
      else if checkEvents en (queryEvents r) \<noteq> ErrNone
      then Finished (writeErrorResponse w (checkEvents en (queryEvents r)) (urlPath r)) wld
      else
        (case bucketInfoErr en (varsBucket r) of
           Some err \<Rightarrow> Finished (writeErrorResponse w (toAPIErrorCode en err) (urlPath r)) wld
         | None \<Rightarrow>
             (let bucket = varsBucket r;
                  arn = accountARN en r;
                  (chanErr, wld1) = AddListenerChan arn wld
              in case chanErr of
                   Some err \<Rightarrow>
                     Finished (writeErrorResponse w (toAPIErrorCode en err) (urlPath r))
                       (closeChan arn wld1)
                 | None \<Rightarrow>
                     (let lc = listenerConfigOf en r;
                          (addErr, wld2) = AddBucketListenerConfig en bucket (Some lc) wld1
                      in case addErr of
                           Some err \<Rightarrow>
                             Finished (writeErrorResponse w (toAPIErrorCode en err) (urlPath r))
                               (closeChan arn (RemoveListenerChan arn wld2))
                         | None \<Rightarrow>
                             (case sendBucketNotification en (Some (setCommonHeaders w)) session of
                                Waiting w' \<Rightarrow> Streaming (writerAfter (setCommonHeaders w) w') wld2
                              | Returned w' \<Rightarrow>
                                  (case streamingDefers en bucket lc arn wld2 of
                                     (None, wld3) \<Rightarrow>
                                       Finished (writerAfter (setCommonHeaders w) w') wld3
                                   | (Some p, wld3) \<Rightarrow>
                                       HandlerPanic p (writerAfter (setCommonHeaders w) w') wld3)
                              | Panicked p w' \<Rightarrow>
                                  HandlerPanic p (writerAfter (setCommonHeaders w) w')
                                    (snd (streamingDefers en bucket lc arn wld2)))))))"

subsection \<open>Reading the trace\<close>

text \<open>The events a call has appended to the trace.\<close>

definition callEvents :: "world \<Rightarrow> world \<Rightarrow> event list" where
  "callEvents w w' = drop (length (trace w)) (trace w')"

text \<open>
  Whether the lock of bucket \<open>b\<close> is held after an event, given whether it was held
  before; \<open>underLock b P held es\<close> tells whether every event of \<open>es\<close> that satisfies \<open>P\<close>
  happens while the lock of \<open>b\<close> is held.
\<close>

fun lockStep :: "bucket \<Rightarrow> bool \<Rightarrow> event \<Rightarrow> bool" where
  "lockStep b held (EvLock b' opsID) = (held \<or> b' = b)"
| "lockStep b held (EvUnlock b' opsID) = (held \<and> b' \<noteq> b)"
| "lockStep b held e = held"

fun underLock :: "bucket \<Rightarrow> (event \<Rightarrow> bool) \<Rightarrow> bool \<Rightarrow> event list \<Rightarrow> bool" where
  "underLock b P held [] = True"
| "underLock b P held (e # es) = ((P e \<longrightarrow> held) \<and> underLock b P (lockStep b held e) es)"

definition lockHeldAfter :: "bucket \<Rightarrow> event list \<Rightarrow> bool" where
  "lockHeldAfter b es = foldl (lockStep b) False es"

fun readsListenerCfgs :: "bucket \<Rightarrow> event \<Rightarrow> bool" where
  "readsListenerCfgs b (EvGetBucketListenerConfig b') = (b' = b)"
| "readsListenerCfgs b e = False"

fun writesListenerCfgs :: "bucket \<Rightarrow> event \<Rightarrow> bool" where
  "writesListenerCfgs b (EvPersistListenerConfig b' lcfgs err) = (b' = b)"
| "writesListenerCfgs b (EvS3PeersUpdateBucketListener b' lcfgs) = (b' = b)"
| "writesListenerCfgs b e = False"

definition touchesListenerCfgs :: "bucket \<Rightarrow> event \<Rightarrow> bool" where
  "touchesListenerCfgs b e = (readsListenerCfgs b e \<or> writesListenerCfgs b e)"

fun isPersist :: "event \<Rightarrow> bool" where
  "isPersist (EvPersistNotificationConfig b ncfg err) = True"
| "isPersist (EvPersistListenerConfig b lcfgs err) = True"
| "isPersist e = False"

fun isBroadcast :: "event \<Rightarrow> bool" where
  "isBroadcast (EvS3PeersUpdateBucketNotification b ncfg) = True"
| "isBroadcast (EvS3PeersUpdateBucketListener b lcfgs) = True"
| "isBroadcast e = False"

subsection \<open>Concrete values\<close>

definition listenerFor :: "string \<Rightarrow> string \<Rightarrow> listenerConfig" where
  "listenerFor arn server =
     \<lparr>TopicConfig =
        \<lparr>TopicARN = arn,
         ServiceConfig = \<lparr>Events = [''s3:ObjectCreated:*''],
                    FilterKey = \<lparr>FilterRules = [\<lparr>Name = ''prefix'', Value = ''img/''\<rparr>]\<rparr>,
                    ID = ''sns-1''\<rparr>\<rparr>,
      TargetServer = server\<rparr>"

definition freshWorld :: world where
  "freshWorld =
     \<lparr>trace = [], notificationStore = Map.empty, listenerStore = Map.empty,
      notificationCfgs = Map.empty, listenerCfgs = (\<lambda>b. []), listenerChans = {},
      opsCounter = 0\<rparr>"

definition listeningWorld :: "listenerConfig list \<Rightarrow> world" where
  "listeningWorld lcfgs = freshWorld\<lparr>listenerCfgs := (\<lambda>b. if b = ''photos'' then lcfgs else [])\<rparr>"

definition marshalRecords :: "(string \<rightharpoonup> NotificationEvent list option) \<Rightarrow> error + bytes" where
  "marshalRecords m =
     (case m ''Records'' of
        None \<Rightarrow> Inr ''{}''
      | Some None \<Rightarrow> Inr ''{\"Records\":null}''
      | Some (Some evs) \<Rightarrow>
          Inr (''{\"Records\":['' @ concat (map (\<lambda>ev. ''{\"key\":\"'' @ EventKey ev @ ''\"}'') evs) @ '']}''))"

text \<open>
  A node whose object layer answers every write with \<open>storeErr\<close> (\<open>None\<close>: the write
  succeeds); \<open>marshalRecords\<close> is a stand-in encoder for the one key the file uses.
\<close>

definition nodeEnv :: "bool \<Rightarrow> error option \<Rightarrow> env" where
  "nodeEnv distXL storeErr =
     \<lparr>globalIsDistXL = distXL, globalMinioAddr = ''10.0.0.1:9000'', serverRegion = ''us-east-1'',
      minioTopic = ''arn:minio:sns'', snsTypeMinio = ''listen'', objectAPI = True,
      persistNotificationErr = (\<lambda>b. storeErr), persistListenerErr = (\<lambda>b. storeErr),
      loadNotificationErr = (\<lambda>b. None), bucketInfoErr = (\<lambda>b. None),
      toAPIErrorCode = (\<lambda>e. ErrCode 1), validateFilterValues = (\<lambda>vs. ErrNone),
      checkEvent = (\<lambda>e. ErrNone),
      xmlMarshal = (\<lambda>c. Inr ''<NotificationConfiguration></NotificationConfiguration>''),
      jsonMarshal = marshalRecords\<rparr>"

section \<open>Properties\<close>

subsection \<open>Helper lemmas: what each operation returns\<close>

lemmas collaborator_defs =
  GetBucketListenerConfig_def getOpsID_def nsMutex_Lock_def nsMutex_Unlock_def
  persistListenerConfig_def persistNotificationConfig_def
  S3PeersUpdateBucketListener_def S3PeersUpdateBucketNotification_def logEvent_def

lemma removeLoop_absent:
  "arn \<notin> (\<lambda>c. TopicARN (TopicConfig c)) ` set rest \<Longrightarrow> removeLoop all arn k rest = ([], False)"
  by (induction rest arbitrary: k) auto

lemma removeLoop_first_match:
  "\<forall>x \<in> set mid. TopicARN (TopicConfig x) \<noteq> arn \<Longrightarrow> TopicARN (TopicConfig c) = arn \<Longrightarrow>
   removeLoop (pre @ mid @ c # post) arn (length pre) (mid @ c # post) = (pre @ mid @ post, True)"
proof (induction mid arbitrary: pre)
  case Nil
  then show ?case by simp
next
  case (Cons x mid)
  have "removeLoop ((pre @ [x]) @ mid @ c # post) arn (length (pre @ [x])) (mid @ c # post)
        = ((pre @ [x]) @ mid @ post, True)"
    using Cons.prems by (intro Cons.IH) auto
  then show ?case using Cons.prems by simp
qed

lemma removeLoop_from_start:
  assumes "\<forall>x \<in> set pre. TopicARN (TopicConfig x) \<noteq> arn" and "TopicARN (TopicConfig c) = arn"
  shows "removeLoop (pre @ c # post) arn 0 (pre @ c # post) = (pre @ post, True)"
proof -
  have "removeLoop ([] @ pre @ c # post) arn (length ([] :: listenerConfig list)) (pre @ c # post)
        = ([] @ pre @ post, True)"
    using assms by (rule removeLoop_first_match)
  then show ?thesis by simp
qed

lemma removeLoop_found_iff:
  "snd (removeLoop all arn k rest) \<longleftrightarrow> arn \<in> (\<lambda>c. TopicARN (TopicConfig c)) ` set rest"
  by (induction rest arbitrary: k) auto

lemma Add_fail:
  "globalIsDistXL en \<Longrightarrow> persistListenerErr en b = Some e \<Longrightarrow>
   AddBucketListenerConfig en b (Some l) w =
     (Some e,
      w\<lparr>trace := trace w @ [EvGetBucketListenerConfig b, EvLock b (opsCounter w),
           EvPersistListenerConfig b (listenerCfgs w b @ [l]) (Some e),
           EvUnlock b (opsCounter w)],
        opsCounter := Suc (opsCounter w)\<rparr>)"
  by (simp add: AddBucketListenerConfig_def collaborator_defs Let_def)

lemma Add_ok_dist:
  "globalIsDistXL en \<Longrightarrow> persistListenerErr en b = None \<Longrightarrow>
   AddBucketListenerConfig en b (Some l) w =
     (None,
      w\<lparr>trace := trace w @ [EvGetBucketListenerConfig b, EvLock b (opsCounter w),
           EvPersistListenerConfig b (listenerCfgs w b @ [l]) None,
           EvS3PeersUpdateBucketListener b (listenerCfgs w b @ [l]),
           EvUnlock b (opsCounter w)],
        listenerStore := (listenerStore w)(b \<mapsto> listenerCfgs w b @ [l]),
        listenerCfgs := (listenerCfgs w)(b := listenerCfgs w b @ [l]),
        opsCounter := Suc (opsCounter w)\<rparr>)"
  by (simp add: AddBucketListenerConfig_def collaborator_defs Let_def)

lemma Add_single:
  "\<not> globalIsDistXL en \<Longrightarrow>
   AddBucketListenerConfig en b (Some l) w =
     (None,
      w\<lparr>trace := trace w @ [EvGetBucketListenerConfig b, EvLock b (opsCounter w),
           EvS3PeersUpdateBucketListener b (listenerCfgs w b @ [l]),
           EvUnlock b (opsCounter w)],
        listenerCfgs := (listenerCfgs w)(b := listenerCfgs w b @ [l]),
        opsCounter := Suc (opsCounter w)\<rparr>)"
  by (simp add: AddBucketListenerConfig_def collaborator_defs Let_def)

lemma Remove_absent:
  "TopicARN (TopicConfig l) \<notin> (\<lambda>c. TopicARN (TopicConfig c)) ` set (listenerCfgs w b) \<Longrightarrow>
   RemoveBucketListenerConfig en b (Some l) w =
     Inr (w\<lparr>trace := trace w @ [EvGetBucketListenerConfig b]\<rparr>)"
  by (simp add: RemoveBucketListenerConfig_def collaborator_defs removeLoop_absent)

lemma Remove_found:
  assumes "removeLoop (listenerCfgs w b) (TopicARN (TopicConfig l)) 0 (listenerCfgs w b) = (upd, True)"
  shows "RemoveBucketListenerConfig en b (Some l) w =
    Inr (if globalIsDistXL en then
           (case persistListenerErr en b of
              Some e \<Rightarrow>
                w\<lparr>trace := trace w @ [EvGetBucketListenerConfig b, EvLock b (opsCounter w),
                     EvPersistListenerConfig b upd (Some e), EvUnlock b (opsCounter w)],
                  opsCounter := Suc (opsCounter w)\<rparr>
            | None \<Rightarrow>
                w\<lparr>trace := trace w @ [EvGetBucketListenerConfig b, EvLock b (opsCounter w),
                     EvPersistListenerConfig b upd None,
                     EvS3PeersUpdateBucketListener b upd, EvUnlock b (opsCounter w)],
                  listenerStore := (listenerStore w)(b \<mapsto> upd),
                  listenerCfgs := (listenerCfgs w)(b := upd),
                  opsCounter := Suc (opsCounter w)\<rparr>)
         else
           w\<lparr>trace := trace w @ [EvGetBucketListenerConfig b, EvLock b (opsCounter w),
                EvS3PeersUpdateBucketListener b upd, EvUnlock b (opsCounter w)],
             listenerCfgs := (listenerCfgs w)(b := upd),
             opsCounter := Suc (opsCounter w)\<rparr>)"
  by (simp add: RemoveBucketListenerConfig_def collaborator_defs assms split: option.splits)

lemma Put_fail:
  "persistNotificationErr en b = Some e \<Longrightarrow>
   PutBucketNotificationConfig en b (Some cfg) w =
     (Some (ErrUnableToPersist cfg e),
      w\<lparr>trace := trace w @ [EvLock b (opsCounter w),
           EvPersistNotificationConfig b cfg (Some e), EvUnlock b (opsCounter w)],
        opsCounter := Suc (opsCounter w)\<rparr>)"
  by (simp add: PutBucketNotificationConfig_def collaborator_defs)

lemma Put_ok:
  "persistNotificationErr en b = None \<Longrightarrow>
   PutBucketNotificationConfig en b (Some cfg) w =
     (None,
      w\<lparr>trace := trace w @ [EvLock b (opsCounter w),
           EvPersistNotificationConfig b cfg None,
           EvS3PeersUpdateBucketNotification b cfg, EvUnlock b (opsCounter w)],
        notificationStore := (notificationStore w)(b \<mapsto> cfg),
        notificationCfgs := (notificationCfgs w)(b \<mapsto> cfg),
        opsCounter := Suc (opsCounter w)\<rparr>)"
  by (simp add: PutBucketNotificationConfig_def collaborator_defs)

subsection \<open>Nil configuration\<close>

text \<open>
  C10. Called with a nil configuration pointer, \<open>PutBucketNotificationConfig\<close> returns
  \<open>errInvalidArgument\<close> at once and leaves the world as it was: the trace gains no lock,
  persist or broadcast call, and neither the durable store nor the registry changes.
\<close>

theorem PutBucketNotificationConfig_nil:
  "PutBucketNotificationConfig en b None w = (Some errInvalidArgument, w)"
  by (simp add: PutBucketNotificationConfig_def)

subsection \<open>Persistence failure\<close>

text \<open>
  C2. If persisting fails inside \<open>PutBucketNotificationConfig\<close> or
  \<open>AddBucketListenerConfig\<close> (which persists on a distributed deployment), the operation
  returns an error, the calls it has made are the lock, the failed persist and the unlock
  (and the read of the cache, for the listener), so the peer broadcast is not invoked and
  the in-memory configuration is untouched. When persisting succeeds the broadcast is the
  call right after it.
\<close>

theorem persist_failure_skips_broadcast:
  "(persistNotificationErr en b = Some e \<longrightarrow>
      PutBucketNotificationConfig en b (Some cfg) w =
        (Some (ErrUnableToPersist cfg e),
         w\<lparr>trace := trace w @ [EvLock b (opsCounter w),
              EvPersistNotificationConfig b cfg (Some e), EvUnlock b (opsCounter w)],
           opsCounter := Suc (opsCounter w)\<rparr>))
   \<and> (globalIsDistXL en \<and> persistListenerErr en b = Some e \<longrightarrow>
      AddBucketListenerConfig en b (Some l) w =
        (Some e,
         w\<lparr>trace := trace w @ [EvGetBucketListenerConfig b, EvLock b (opsCounter w),
              EvPersistListenerConfig b (listenerCfgs w b @ [l]) (Some e),
              EvUnlock b (opsCounter w)],
           opsCounter := Suc (opsCounter w)\<rparr>))
   \<and> (persistNotificationErr en b = None \<longrightarrow>
      fst (PutBucketNotificationConfig en b (Some cfg) w) = None \<and>
      callEvents w (snd (PutBucketNotificationConfig en b (Some cfg) w)) =
        [EvLock b (opsCounter w), EvPersistNotificationConfig b cfg None,
         EvS3PeersUpdateBucketNotification b cfg, EvUnlock b (opsCounter w)])
   \<and> (globalIsDistXL en \<and> persistListenerErr en b = None \<longrightarrow>
      fst (AddBucketListenerConfig en b (Some l) w) = None \<and>
      callEvents w (snd (AddBucketListenerConfig en b (Some l) w)) =
        [EvGetBucketListenerConfig b, EvLock b (opsCounter w),
         EvPersistListenerConfig b (listenerCfgs w b @ [l]) None,
         EvS3PeersUpdateBucketListener b (listenerCfgs w b @ [l]), EvUnlock b (opsCounter w)])"
  by (simp add: Put_fail Put_ok Add_fail Add_ok_dist callEvents_def)

theorem persist_failure_skips_broadcast_witness:
  "PutBucketNotificationConfig (nodeEnv True (Some (ErrOther ''disk offline''))) ''photos''
       (Some [(''dest1'', ServiceConfig (TopicConfig (listenerFor ''arn1'' ''10.0.0.1:9000'')))]) freshWorld =
     (Some (ErrUnableToPersist [(''dest1'', ServiceConfig (TopicConfig (listenerFor ''arn1'' ''10.0.0.1:9000'')))]
              (ErrOther ''disk offline'')),
      freshWorld\<lparr>trace := [EvLock ''photos'' 0,
           EvPersistNotificationConfig ''photos''
             [(''dest1'', ServiceConfig (TopicConfig (listenerFor ''arn1'' ''10.0.0.1:9000'')))]
             (Some (ErrOther ''disk offline'')),
           EvUnlock ''photos'' 0],
        opsCounter := 1\<rparr>)
   \<and> fst (AddBucketListenerConfig (nodeEnv True (Some (ErrOther ''disk offline''))) ''photos''
        (Some (listenerFor ''arn1'' ''10.0.0.1:9000'')) freshWorld) = Some (ErrOther ''disk offline'')
   \<and> list_ex isBroadcast (callEvents freshWorld
        (snd (AddBucketListenerConfig (nodeEnv True (Some (ErrOther ''disk offline''))) ''photos''
           (Some (listenerFor ''arn1'' ''10.0.0.1:9000'')) freshWorld))) = False
   \<and> callEvents freshWorld
        (snd (AddBucketListenerConfig (nodeEnv True None) ''photos''
           (Some (listenerFor ''arn1'' ''10.0.0.1:9000'')) freshWorld)) =
      [EvGetBucketListenerConfig ''photos'', EvLock ''photos'' 0,
       EvPersistListenerConfig ''photos'' [listenerFor ''arn1'' ''10.0.0.1:9000''] None,
       EvS3PeersUpdateBucketListener ''photos'' [listenerFor ''arn1'' ''10.0.0.1:9000''],
       EvUnlock ''photos'' 0]"
  using persist_failure_skips_broadcast
    [of "nodeEnv True (Some (ErrOther ''disk offline''))" "''photos''" "ErrOther ''disk offline''"
        "[(''dest1'', ServiceConfig (TopicConfig (listenerFor ''arn1'' ''10.0.0.1:9000'')))]" freshWorld
        "listenerFor ''arn1'' ''10.0.0.1:9000''"]
    persist_failure_skips_broadcast
    [of "nodeEnv True None" "''photos''" "ErrOther ''disk offline''"
        "[]" freshWorld "listenerFor ''arn1'' ''10.0.0.1:9000''"]
  by (simp add: nodeEnv_def freshWorld_def callEvents_def)

subsection \<open>The bucket lock and the listener sequence\<close>

lemma Remove_some:
  "RemoveBucketListenerConfig en b (Some l) w =
     Inr (case removeLoop (listenerCfgs w b) (TopicARN (TopicConfig l)) 0 (listenerCfgs w b) of
            (upd, found) \<Rightarrow>
              if \<not> found then w\<lparr>trace := trace w @ [EvGetBucketListenerConfig b]\<rparr>
              else if globalIsDistXL en then
                (case persistListenerErr en b of
                   Some e \<Rightarrow>
                     w\<lparr>trace := trace w @ [EvGetBucketListenerConfig b, EvLock b (opsCounter w),
                          EvPersistListenerConfig b upd (Some e), EvUnlock b (opsCounter w)],
                       opsCounter := Suc (opsCounter w)\<rparr>
                 | None \<Rightarrow>
                     w\<lparr>trace := trace w @ [EvGetBucketListenerConfig b, EvLock b (opsCounter w),
                          EvPersistListenerConfig b upd None,
                          EvS3PeersUpdateBucketListener b upd, EvUnlock b (opsCounter w)],
                       listenerStore := (listenerStore w)(b \<mapsto> upd),
                       listenerCfgs := (listenerCfgs w)(b := upd),
                       opsCounter := Suc (opsCounter w)\<rparr>)
              else
                w\<lparr>trace := trace w @ [EvGetBucketListenerConfig b, EvLock b (opsCounter w),
                     EvS3PeersUpdateBucketListener b upd, EvUnlock b (opsCounter w)],
                  listenerCfgs := (listenerCfgs w)(b := upd),
                  opsCounter := Suc (opsCounter w)\<rparr>)"
  by (simp add: RemoveBucketListenerConfig_def collaborator_defs split: option.splits prod.splits)

text \<open>
  C1, as stated, asks that every call that reads, persists or broadcasts the listener
  sequence of the bucket happens under the bucket lock. On the code the read of the cached
  sequence comes first, before the lock is taken.
\<close>

theorem lock_before_read_counterexample:
  "\<not> underLock ''photos'' (touchesListenerCfgs ''photos'') False
       (callEvents freshWorld
          (snd (AddBucketListenerConfig (nodeEnv True None) ''photos''
                  (Some (listenerFor ''arn1'' ''10.0.0.1:9000'')) freshWorld)))"
  by (simp add: Add_ok_dist nodeEnv_def freshWorld_def callEvents_def touchesListenerCfgs_def)

text \<open>
  C1, amended. \<open>AddBucketListenerConfig\<close> and \<open>RemoveBucketListenerConfig\<close> first read the
  cached listener sequence and compute the modified one, and acquire the bucket lock only
  then; from there the calls are the lock, the persist (on a distributed deployment), the
  broadcast (unless the persist failed) and, last, the unlock. So persistence and broadcast
  happen under the lock and the lock is not held when the operation returns. A removal
  that finds no entry takes no lock.
\<close>

theorem listener_config_lock_after_read:
  "callEvents w (snd (AddBucketListenerConfig en b (Some l) w)) =
     [EvGetBucketListenerConfig b, EvLock b (opsCounter w)] @
     (if globalIsDistXL en then
        (case persistListenerErr en b of
           Some e \<Rightarrow> [EvPersistListenerConfig b (listenerCfgs w b @ [l]) (Some e)]
         | None \<Rightarrow> [EvPersistListenerConfig b (listenerCfgs w b @ [l]) None,
                    EvS3PeersUpdateBucketListener b (listenerCfgs w b @ [l])])
      else [EvS3PeersUpdateBucketListener b (listenerCfgs w b @ [l])]) @
     [EvUnlock b (opsCounter w)]
   \<and> underLock b (writesListenerCfgs b) False
        (callEvents w (snd (AddBucketListenerConfig en b (Some l) w)))
   \<and> \<not> lockHeldAfter b (callEvents w (snd (AddBucketListenerConfig en b (Some l) w)))
   \<and> map_sum id (callEvents w) (RemoveBucketListenerConfig en b (Some l) w) =
       Inr (case removeLoop (listenerCfgs w b) (TopicARN (TopicConfig l)) 0 (listenerCfgs w b) of
              (upd, found) \<Rightarrow>
                if \<not> found then [EvGetBucketListenerConfig b]
                else [EvGetBucketListenerConfig b, EvLock b (opsCounter w)] @
                     (if globalIsDistXL en then
                        (case persistListenerErr en b of
                           Some e \<Rightarrow> [EvPersistListenerConfig b upd (Some e)]
                         | None \<Rightarrow> [EvPersistListenerConfig b upd None,
                                    EvS3PeersUpdateBucketListener b upd])
                      else [EvS3PeersUpdateBucketListener b upd]) @
                     [EvUnlock b (opsCounter w)])
   \<and> map_sum id (\<lambda>w'. underLock b (writesListenerCfgs b) False (callEvents w w')
                        \<and> \<not> lockHeldAfter b (callEvents w w'))
        (RemoveBucketListenerConfig en b (Some l) w) = Inr True"
proof -
  have add: "callEvents w (snd (AddBucketListenerConfig en b (Some l) w)) =
     [EvGetBucketListenerConfig b, EvLock b (opsCounter w)] @
     (if globalIsDistXL en then
        (case persistListenerErr en b of
           Some e \<Rightarrow> [EvPersistListenerConfig b (listenerCfgs w b @ [l]) (Some e)]
         | None \<Rightarrow> [EvPersistListenerConfig b (listenerCfgs w b @ [l]) None,
                    EvS3PeersUpdateBucketListener b (listenerCfgs w b @ [l])])
      else [EvS3PeersUpdateBucketListener b (listenerCfgs w b @ [l])]) @
     [EvUnlock b (opsCounter w)]"
    by (cases "globalIsDistXL en"; cases "persistListenerErr en b")
       (simp_all add: Add_fail Add_ok_dist Add_single callEvents_def)
  have add_locked: "underLock b (writesListenerCfgs b) False
        (callEvents w (snd (AddBucketListenerConfig en b (Some l) w)))"
    unfolding add by (simp split: option.splits)
  have add_released: "\<not> lockHeldAfter b (callEvents w (snd (AddBucketListenerConfig en b (Some l) w)))"
    unfolding add by (simp add: lockHeldAfter_def split: option.splits)
  have rem: "map_sum id (callEvents w) (RemoveBucketListenerConfig en b (Some l) w) =
       Inr (case removeLoop (listenerCfgs w b) (TopicARN (TopicConfig l)) 0 (listenerCfgs w b) of
              (upd, found) \<Rightarrow>
                if \<not> found then [EvGetBucketListenerConfig b]
                else [EvGetBucketListenerConfig b, EvLock b (opsCounter w)] @
                     (if globalIsDistXL en then
                        (case persistListenerErr en b of
                           Some e \<Rightarrow> [EvPersistListenerConfig b upd (Some e)]
                         | None \<Rightarrow> [EvPersistListenerConfig b upd None,
                                    EvS3PeersUpdateBucketListener b upd])
                      else [EvS3PeersUpdateBucketListener b upd]) @
                     [EvUnlock b (opsCounter w)])"
    by (simp add: Remove_some callEvents_def split: prod.splits option.splits)
  have rem_locked: "map_sum id (\<lambda>w'. underLock b (writesListenerCfgs b) False (callEvents w w')
                        \<and> \<not> lockHeldAfter b (callEvents w w'))
        (RemoveBucketListenerConfig en b (Some l) w) = Inr True"
    by (simp add: Remove_some callEvents_def lockHeldAfter_def split: prod.splits option.splits)
  from add add_locked add_released rem rem_locked show ?thesis by blast
qed

theorem listener_config_lock_after_read_witness:
  "callEvents freshWorld
     (snd (AddBucketListenerConfig (nodeEnv True None) ''photos''
             (Some (listenerFor ''arn1'' ''10.0.0.1:9000'')) freshWorld)) =
     [EvGetBucketListenerConfig ''photos'', EvLock ''photos'' 0,
      EvPersistListenerConfig ''photos'' [listenerFor ''arn1'' ''10.0.0.1:9000''] None,
      EvS3PeersUpdateBucketListener ''photos'' [listenerFor ''arn1'' ''10.0.0.1:9000''],
      EvUnlock ''photos'' 0]
   \<and> map_sum id (callEvents (listeningWorld [listenerFor ''arn1'' ''10.0.0.1:9000'']))
       (RemoveBucketListenerConfig (nodeEnv True None) ''photos''
          (Some (listenerFor ''arn1'' ''10.0.0.1:9000''))
          (listeningWorld [listenerFor ''arn1'' ''10.0.0.1:9000''])) =
     Inr [EvGetBucketListenerConfig ''photos'', EvLock ''photos'' 0,
          EvPersistListenerConfig ''photos'' [] None,
          EvS3PeersUpdateBucketListener ''photos'' [], EvUnlock ''photos'' 0]"
  using listener_config_lock_after_read
          [of freshWorld "nodeEnv True None" "''photos''" "listenerFor ''arn1'' ''10.0.0.1:9000''"]
        listener_config_lock_after_read
          [of "listeningWorld [listenerFor ''arn1'' ''10.0.0.1:9000'']" "nodeEnv True None"
              "''photos''" "listenerFor ''arn1'' ''10.0.0.1:9000''"]
  by (simp add: nodeEnv_def freshWorld_def listeningWorld_def listenerFor_def)

subsection \<open>Removing a listener\<close>

text \<open>
  C5. When no entry of the bucket's cached listener sequence has the \<open>TopicARN\<close> of the
  configuration to remove, \<open>RemoveBucketListenerConfig\<close> returns normally and the world is
  the one before, but for the recorded read of the cache: no lock, no persist, no
  broadcast. In particular, where identifiers are unique and the first removal has
  reached the broadcast, removing the same listener again is such a no-op.
\<close>

theorem RemoveBucketListenerConfig_absent_noop:
  "(TopicARN (TopicConfig l) \<notin> (\<lambda>c. TopicARN (TopicConfig c)) ` set (listenerCfgs w b) \<longrightarrow>
      RemoveBucketListenerConfig en b (Some l) w =
        Inr (w\<lparr>trace := trace w @ [EvGetBucketListenerConfig b]\<rparr>))
   \<and> (distinct (map (\<lambda>c. TopicARN (TopicConfig c)) (listenerCfgs w b)) \<and>
       \<not> (globalIsDistXL en \<and> persistListenerErr en b \<noteq> None) \<and>
       RemoveBucketListenerConfig en b (Some l) w = Inr w1 \<longrightarrow>
      RemoveBucketListenerConfig en b (Some l) w1 =
        Inr (w1\<lparr>trace := trace w1 @ [EvGetBucketListenerConfig b]\<rparr>))"
proof (intro conjI impI)
  assume "TopicARN (TopicConfig l) \<notin> (\<lambda>c. TopicARN (TopicConfig c)) ` set (listenerCfgs w b)"
  then show "RemoveBucketListenerConfig en b (Some l) w =
        Inr (w\<lparr>trace := trace w @ [EvGetBucketListenerConfig b]\<rparr>)"
    by (rule Remove_absent)
next
  let ?arn = "\<lambda>c. TopicARN (TopicConfig c)"
  assume asm: "distinct (map ?arn (listenerCfgs w b)) \<and>
       \<not> (globalIsDistXL en \<and> persistListenerErr en b \<noteq> None) \<and>
       RemoveBucketListenerConfig en b (Some l) w = Inr w1"
  have "?arn l \<notin> ?arn ` set (listenerCfgs w1 b)"
  proof (cases "?arn l \<in> ?arn ` set (listenerCfgs w b)")
    case False
    with asm have "w1 = w\<lparr>trace := trace w @ [EvGetBucketListenerConfig b]\<rparr>"
      by (simp add: Remove_absent)
    with False show ?thesis by simp
  next
    case True
    then have "\<exists>x \<in> set (listenerCfgs w b). ?arn x = ?arn l" by auto
    then obtain pre c post where
      split: "listenerCfgs w b = pre @ c # post" and c: "?arn c = ?arn l"
      and pre: "\<forall>x \<in> set pre. ?arn x \<noteq> ?arn l"
      by (auto simp: split_list_first_prop_iff)
    have loop: "removeLoop (listenerCfgs w b) (?arn l) 0 (listenerCfgs w b) = (pre @ post, True)"
      unfolding split using pre c by (rule removeLoop_from_start)
    from asm have "listenerCfgs w1 b = pre @ post"
      by (auto simp: Remove_found [OF loop] split: if_splits option.splits)
    moreover from asm split c have "?arn l \<notin> ?arn ` set (pre @ post)"
      by auto
    ultimately show ?thesis by simp
  qed
  then show "RemoveBucketListenerConfig en b (Some l) w1 =
        Inr (w1\<lparr>trace := trace w1 @ [EvGetBucketListenerConfig b]\<rparr>)"
    by (rule Remove_absent)
qed

theorem RemoveBucketListenerConfig_absent_noop_witness:
  "RemoveBucketListenerConfig (nodeEnv False None) ''photos''
     (Some (listenerFor ''arn2'' ''10.0.0.1:9000''))
     (listeningWorld [listenerFor ''arn1'' ''10.0.0.1:9000'']) =
   Inr ((listeningWorld [listenerFor ''arn1'' ''10.0.0.1:9000''])
          \<lparr>trace := [EvGetBucketListenerConfig ''photos'']\<rparr>)
   \<and> RemoveBucketListenerConfig (nodeEnv False None) ''photos''
     (Some (listenerFor ''arn1'' ''10.0.0.1:9000''))
     (freshWorld\<lparr>trace := [EvGetBucketListenerConfig ''photos'', EvLock ''photos'' 0,
                    EvS3PeersUpdateBucketListener ''photos'' [], EvUnlock ''photos'' 0],
                  opsCounter := 1\<rparr>) =
   Inr (freshWorld\<lparr>trace := [EvGetBucketListenerConfig ''photos'', EvLock ''photos'' 0,
                    EvS3PeersUpdateBucketListener ''photos'' [], EvUnlock ''photos'' 0,
                    EvGetBucketListenerConfig ''photos''],
                  opsCounter := 1\<rparr>)"
proof -
  have first: "RemoveBucketListenerConfig (nodeEnv False None) ''photos''
      (Some (listenerFor ''arn1'' ''10.0.0.1:9000''))
      (listeningWorld [listenerFor ''arn1'' ''10.0.0.1:9000'']) =
    Inr (freshWorld\<lparr>trace := [EvGetBucketListenerConfig ''photos'', EvLock ''photos'' 0,
                    EvS3PeersUpdateBucketListener ''photos'' [], EvUnlock ''photos'' 0],
                  opsCounter := 1\<rparr>)"
    by (simp add: RemoveBucketListenerConfig_def collaborator_defs listeningWorld_def
          freshWorld_def nodeEnv_def fun_eq_iff)
  show ?thesis
    using RemoveBucketListenerConfig_absent_noop
            [of "listenerFor ''arn2'' ''10.0.0.1:9000''"
                "listeningWorld [listenerFor ''arn1'' ''10.0.0.1:9000'']" "''photos''"
                "nodeEnv False None"]
          RemoveBucketListenerConfig_absent_noop
            [of "listenerFor ''arn1'' ''10.0.0.1:9000''"
                "listeningWorld [listenerFor ''arn1'' ''10.0.0.1:9000'']" "''photos''"
                "nodeEnv False None"
                "freshWorld\<lparr>trace := [EvGetBucketListenerConfig ''photos'', EvLock ''photos'' 0,
                    EvS3PeersUpdateBucketListener ''photos'' [], EvUnlock ''photos'' 0],
                  opsCounter := 1\<rparr>"]
          first
    by (simp add: listeningWorld_def freshWorld_def listenerFor_def nodeEnv_def)
qed

text \<open>
  C6. When several entries have the \<open>TopicARN\<close> to remove, the updated sequence is the
  cached one without its first matching entry: the entries before it and all the entries
  after it, later matches included, stay in order. That sequence is what is broadcast and,
  once broadcast, what the cache holds.
\<close>

theorem RemoveBucketListenerConfig_first_match_only:
  assumes "listenerCfgs w b = pre @ c # post"
    and "\<forall>x \<in> set pre. TopicARN (TopicConfig x) \<noteq> TopicARN (TopicConfig l)"
    and "TopicARN (TopicConfig c) = TopicARN (TopicConfig l)"
  shows "removeLoop (listenerCfgs w b) (TopicARN (TopicConfig l)) 0 (listenerCfgs w b)
           = (pre @ post, True)
       \<and> map_sum id (\<lambda>w'. filter isBroadcast (callEvents w w'))
           (RemoveBucketListenerConfig en b (Some l) w) =
         Inr (if globalIsDistXL en \<and> persistListenerErr en b \<noteq> None then []
              else [EvS3PeersUpdateBucketListener b (pre @ post)])
       \<and> (\<not> (globalIsDistXL en \<and> persistListenerErr en b \<noteq> None) \<longrightarrow>
            map_sum id (\<lambda>w'. listenerCfgs w' b) (RemoveBucketListenerConfig en b (Some l) w) =
            Inr (pre @ post))"
proof -
  have found: "removeLoop (pre @ c # post) (TopicARN (TopicConfig l)) 0 (pre @ c # post)
                 = (pre @ post, True)"
    using assms(2,3) by (rule removeLoop_from_start)
  then have loop: "removeLoop (listenerCfgs w b) (TopicARN (TopicConfig l)) 0 (listenerCfgs w b)
                     = (pre @ post, True)"
    by (simp add: assms(1))
  show ?thesis
    by (auto simp: found Remove_found [OF loop] callEvents_def assms(1))
qed

theorem RemoveBucketListenerConfig_first_match_only_witness:
  "map_sum id (\<lambda>w'. listenerCfgs w' ''photos'')
     (RemoveBucketListenerConfig (nodeEnv False None) ''photos''
        (Some (listenerFor ''dup'' ''10.0.0.9:9000''))
        (listeningWorld [listenerFor ''arn1'' ''10.0.0.1:9000'', listenerFor ''dup'' ''10.0.0.2:9000'',
                         listenerFor ''arn3'' ''10.0.0.3:9000'', listenerFor ''dup'' ''10.0.0.4:9000''])) =
   Inr [listenerFor ''arn1'' ''10.0.0.1:9000'', listenerFor ''arn3'' ''10.0.0.3:9000'',
        listenerFor ''dup'' ''10.0.0.4:9000'']"
proof -
  have split: "listenerCfgs
      (listeningWorld [listenerFor ''arn1'' ''10.0.0.1:9000'', listenerFor ''dup'' ''10.0.0.2:9000'',
                       listenerFor ''arn3'' ''10.0.0.3:9000'', listenerFor ''dup'' ''10.0.0.4:9000''])
      ''photos'' =
    [listenerFor ''arn1'' ''10.0.0.1:9000''] @ listenerFor ''dup'' ''10.0.0.2:9000'' #
    [listenerFor ''arn3'' ''10.0.0.3:9000'', listenerFor ''dup'' ''10.0.0.4:9000'']"
    by (simp add: listeningWorld_def)
  have pre: "\<forall>x \<in> set [listenerFor ''arn1'' ''10.0.0.1:9000''].
      TopicARN (TopicConfig x) \<noteq> TopicARN (TopicConfig (listenerFor ''dup'' ''10.0.0.9:9000''))"
    by (simp add: listenerFor_def)
  have hit: "TopicARN (TopicConfig (listenerFor ''dup'' ''10.0.0.2:9000'')) =
      TopicARN (TopicConfig (listenerFor ''dup'' ''10.0.0.9:9000''))"
    by (simp add: listenerFor_def)
  show ?thesis
    using RemoveBucketListenerConfig_first_match_only [OF split pre hit, of "nodeEnv False None"]
    by (simp add: nodeEnv_def)
qed

subsection \<open>Single-node deployments\<close>

text \<open>
  C7. With \<open>globalIsDistXL\<close> false, adding or removing a listener configuration makes no
  persist call: the calls are the read of the cache, the lock, the broadcast
  \<open>S3PeersUpdateBucketListener\<close> and the unlock (only the read, for a removal that finds
  nothing), and both durable stores are as before.
\<close>

theorem single_node_skips_persist:
  assumes "\<not> globalIsDistXL en"
  shows "AddBucketListenerConfig en b (Some l) w =
           (None,
            w\<lparr>trace := trace w @ [EvGetBucketListenerConfig b, EvLock b (opsCounter w),
                 EvS3PeersUpdateBucketListener b (listenerCfgs w b @ [l]),
                 EvUnlock b (opsCounter w)],
              listenerCfgs := (listenerCfgs w)(b := listenerCfgs w b @ [l]),
              opsCounter := Suc (opsCounter w)\<rparr>)
       \<and> RemoveBucketListenerConfig en b (Some l) w =
           Inr (case removeLoop (listenerCfgs w b) (TopicARN (TopicConfig l)) 0 (listenerCfgs w b) of
                  (upd, found) \<Rightarrow>
                    if found then
                      w\<lparr>trace := trace w @ [EvGetBucketListenerConfig b, EvLock b (opsCounter w),
                           EvS3PeersUpdateBucketListener b upd, EvUnlock b (opsCounter w)],
                        listenerCfgs := (listenerCfgs w)(b := upd),
                        opsCounter := Suc (opsCounter w)\<rparr>
                    else w\<lparr>trace := trace w @ [EvGetBucketListenerConfig b]\<rparr>)
       \<and> listenerStore (snd (AddBucketListenerConfig en b lcfg w)) = listenerStore w
       \<and> notificationStore (snd (AddBucketListenerConfig en b lcfg w)) = notificationStore w
       \<and> filter isPersist (callEvents w (snd (AddBucketListenerConfig en b lcfg w))) = []
       \<and> map_sum id (\<lambda>w'. (listenerStore w', notificationStore w', filter isPersist (callEvents w w')))
           (RemoveBucketListenerConfig en b (Some l) w) =
         Inr (listenerStore w, notificationStore w, [])"
proof -
  have add: "AddBucketListenerConfig en b (Some l) w =
           (None,
            w\<lparr>trace := trace w @ [EvGetBucketListenerConfig b, EvLock b (opsCounter w),
                 EvS3PeersUpdateBucketListener b (listenerCfgs w b @ [l]),
                 EvUnlock b (opsCounter w)],
              listenerCfgs := (listenerCfgs w)(b := listenerCfgs w b @ [l]),
              opsCounter := Suc (opsCounter w)\<rparr>)" for l
    using assms by (rule Add_single)
  have rem: "RemoveBucketListenerConfig en b (Some l) w =
           Inr (case removeLoop (listenerCfgs w b) (TopicARN (TopicConfig l)) 0 (listenerCfgs w b) of
                  (upd, found) \<Rightarrow>
                    if found then
                      w\<lparr>trace := trace w @ [EvGetBucketListenerConfig b, EvLock b (opsCounter w),
                           EvS3PeersUpdateBucketListener b upd, EvUnlock b (opsCounter w)],
                        listenerCfgs := (listenerCfgs w)(b := upd),
                        opsCounter := Suc (opsCounter w)\<rparr>
                    else w\<lparr>trace := trace w @ [EvGetBucketListenerConfig b]\<rparr>)"
    using assms by (simp add: Remove_some split: prod.splits)
  have add_any: "listenerStore (snd (AddBucketListenerConfig en b lcfg w)) = listenerStore w
       \<and> notificationStore (snd (AddBucketListenerConfig en b lcfg w)) = notificationStore w
       \<and> filter isPersist (callEvents w (snd (AddBucketListenerConfig en b lcfg w))) = []"
  proof (cases lcfg)
    case None
    then show ?thesis by (simp add: AddBucketListenerConfig_def callEvents_def)
  next
    case (Some l')
    then show ?thesis by (simp add: add callEvents_def)
  qed
  have rem_store: "map_sum id (\<lambda>w'. (listenerStore w', notificationStore w', filter isPersist (callEvents w w')))
           (RemoveBucketListenerConfig en b (Some l) w) =
         Inr (listenerStore w, notificationStore w, [])"
    unfolding rem by (simp add: callEvents_def split: prod.splits)
  from add rem add_any rem_store show ?thesis by blast
qed

theorem single_node_skips_persist_witness:
  "AddBucketListenerConfig (nodeEnv False (Some (ErrOther ''disk offline''))) ''photos''
       (Some (listenerFor ''arn1'' ''10.0.0.1:9000'')) freshWorld =
     (None,
      freshWorld\<lparr>trace := [EvGetBucketListenerConfig ''photos'', EvLock ''photos'' 0,
           EvS3PeersUpdateBucketListener ''photos'' [listenerFor ''arn1'' ''10.0.0.1:9000''],
           EvUnlock ''photos'' 0],
        listenerCfgs := (\<lambda>b. [])(''photos'' := [listenerFor ''arn1'' ''10.0.0.1:9000'']),
        opsCounter := 1\<rparr>)"
proof -
  have single: "\<not> globalIsDistXL (nodeEnv False (Some (ErrOther ''disk offline'')))"
    by (simp add: nodeEnv_def)
  show ?thesis
    using single_node_skips_persist
            [OF single, of "''photos''" "listenerFor ''arn1'' ''10.0.0.1:9000''" freshWorld]
    by (simp add: freshWorld_def)
qed

subsection \<open>Reading a bucket without configuration\<close>

text \<open>
  C3. When \<open>loadNotificationConfig\<close> answers \<open>errNoSuchNotifications\<close> (as it does for a
  bucket with nothing stored, the store being readable), \<open>GetBucketNotificationHandler\<close>
  writes no error: the response is the success response whose body is the serialization
  of the empty configuration \<open>&notificationConfig{}\<close>.
\<close>

theorem GetBucketNotificationHandler_no_config:
  assumes "objectAPI en" and "checkAuth r = ErrNone"
    and "xmlMarshal en (Some emptyNotificationConfig) = Inr body"
  shows "(loadNotificationConfig en (varsBucket r) wld = (nc, Some errNoSuchNotifications) \<longrightarrow>
            GetBucketNotificationHandler en r w wld = w\<lparr>response := Some (SuccessResponse body)\<rparr>)
       \<and> (notificationStore wld (varsBucket r) = None \<and> loadNotificationErr en (varsBucket r) = None \<longrightarrow>
            GetBucketNotificationHandler en r w wld = w\<lparr>response := Some (SuccessResponse body)\<rparr>)"
  using assms
  by (simp add: GetBucketNotificationHandler_def marshalAndRespond_def writeSuccessResponse_def
        loadNotificationConfig_def)

theorem GetBucketNotificationHandler_no_config_witness:
  "GetBucketNotificationHandler (nodeEnv True None)
     \<lparr>urlPath = ''/photos'', varsBucket = ''photos'', checkAuth = ErrNone,
      queryPrefixes = [], querySuffixes = [], queryEvents = [], timeNow = 7\<rparr>
     \<lparr>response = None, commonHeaders = False, written = [], flushes = 0, isFlusher = True,
      writeErr = (\<lambda>n. None)\<rparr>
     freshWorld =
   \<lparr>response = Some (SuccessResponse ''<NotificationConfiguration></NotificationConfiguration>''),
    commonHeaders = False, written = [], flushes = 0, isFlusher = True,
    writeErr = (\<lambda>n. None)\<rparr>"
proof -
  have up: "objectAPI (nodeEnv True None)"
    by (simp add: nodeEnv_def)
  have auth: "checkAuth \<lparr>urlPath = ''/photos'', varsBucket = ''photos'', checkAuth = ErrNone,
      queryPrefixes = [], querySuffixes = [], queryEvents = [], timeNow = 7\<rparr> = ErrNone"
    by simp
  have body: "xmlMarshal (nodeEnv True None) (Some emptyNotificationConfig) =
      Inr ''<NotificationConfiguration></NotificationConfiguration>''"
    by (simp add: nodeEnv_def)
  show ?thesis
    using GetBucketNotificationHandler_no_config [OF up auth body, of freshWorld None
            "\<lparr>response = None, commonHeaders = False, written = [], flushes = 0, isFlusher = True,
              writeErr = (\<lambda>n. None)\<rparr>"]
    by (simp add: freshWorld_def nodeEnv_def loadNotificationConfig_def)
qed

subsection \<open>The streaming loop\<close>

lemma writeNotification_writer:
  "writeNotification en (Some rw) (Some m) =
     (case jsonMarshal en m of
        Inl err \<Rightarrow> (Inr (Some err), Some rw)
      | Inr bs \<Rightarrow>
          if isFlusher rw
          then (Inr (writeErr rw (length (written rw))),
                Some (rw\<lparr>written := written rw @ [bs @ crlf], flushes := Suc (flushes rw)\<rparr>))
          else (Inl InterfaceConversion, Some (rw\<lparr>written := written rw @ [bs @ crlf]\<rparr>)))"
  by (simp add: writeNotification_def Write_def Flush_def split: sum.splits)

lemma sendBucketNotification_step:
  "sendBucketNotification en w (s # later) =
     (case writeNotification en w (Some [''Records'' \<mapsto> selectedRecords s]) of
        (Inl p, w') \<Rightarrow> Panicked p w'
      | (Inr (Some err), w') \<Rightarrow> Returned w'
      | (Inr None, w') \<Rightarrow> sendBucketNotification en w' later)"
  by (cases s) (simp_all add: dummyEvents_def)

lemma sendBucketNotification_frames:
  "\<exists>rw' n. writerOf (sendBucketNotification en (Some rw) session) = Some rw' \<and>
            n \<le> length session \<and>
            map Some (written rw') =
              map Some (written rw) @ map (\<lambda>s. recordsFrame en (selectedRecords s)) (take n session)"
proof (induction session arbitrary: rw)
  case Nil
  show ?case by simp
next
  case (Cons s later)
  let ?m = "[''Records'' \<mapsto> selectedRecords s]"
  show ?case
  proof (cases "jsonMarshal en ?m")
    case (Inl err)
    then have "writerOf (sendBucketNotification en (Some rw) (s # later)) = Some rw"
      by (simp add: sendBucketNotification_step writeNotification_writer)
    then show ?thesis
      by (intro exI [of _ rw] exI [of _ 0]) simp
  next
    case (Inr bs)
    then have frame: "recordsFrame en (selectedRecords s) = Some (bs @ crlf)"
      by (simp add: recordsFrame_def crlf_def)
    show ?thesis
    proof (cases "isFlusher rw \<and> writeErr rw (length (written rw)) = None")
      case False
      then have "\<exists>rw1. writerOf (sendBucketNotification en (Some rw) (s # later)) = Some rw1 \<and>
                       written rw1 = written rw @ [bs @ crlf]"
        using Inr by (auto simp: sendBucketNotification_step writeNotification_writer)
      then obtain rw1 where
        "writerOf (sendBucketNotification en (Some rw) (s # later)) = Some rw1"
        "written rw1 = written rw @ [bs @ crlf]"
        by blast
      then show ?thesis
        using frame by (intro exI [of _ rw1] exI [of _ 1]) simp
    next
      case True
      let ?rw1 = "rw\<lparr>written := written rw @ [bs @ crlf], flushes := Suc (flushes rw)\<rparr>"
      from True Inr have step:
        "sendBucketNotification en (Some rw) (s # later) = sendBucketNotification en (Some ?rw1) later"
        by (simp add: sendBucketNotification_step writeNotification_writer)
      from Cons.IH [of ?rw1] obtain rw' n where
        rw': "writerOf (sendBucketNotification en (Some ?rw1) later) = Some rw'"
        and n: "n \<le> length later"
        and fs: "map Some (written rw') =
                   map Some (written ?rw1) @ map (\<lambda>s. recordsFrame en (selectedRecords s)) (take n later)"
        by blast
      show ?thesis
        using rw' n fs frame step by (intro exI [of _ rw'] exI [of _ "Suc n"]) simp
    qed
  qed
qed

lemma sendBucketNotification_extends:
  "\<exists>rw' fs. writerOf (sendBucketNotification en (Some rw) session) = Some rw' \<and>
             written rw' = written rw @ fs"
proof -
  obtain rw' n where
    rw': "writerOf (sendBucketNotification en (Some rw) session) = Some rw'"
    and fs: "map Some (written rw') =
               map Some (written rw) @ map (\<lambda>s. recordsFrame en (selectedRecords s)) (take n session)"
    using sendBucketNotification_frames [of en rw session] by blast
  from fs have "take (length (written rw)) (map Some (written rw')) = map Some (written rw)"
    by simp
  then have "map Some (take (length (written rw)) (written rw')) = map Some (written rw)"
    by (simp add: take_map)
  then have "take (length (written rw)) (written rw') = written rw"
    by (simp add: inj_map_eq_map)
  then have "written rw' = written rw @ drop (length (written rw)) (written rw')"
    by (metis append_take_drop_id)
  with rw' show ?thesis by blast
qed

lemma sendBucketNotification_append:
  "sendBucketNotification en w before = Waiting w1 \<Longrightarrow>
   sendBucketNotification en w (before @ later) = sendBucketNotification en w1 later"
proof (induction before arbitrary: w)
  case Nil
  then show ?case by simp
next
  case (Cons s before)
  then show ?case
    by (auto simp: sendBucketNotification_step split: prod.splits sum.splits option.splits)
qed

text \<open>
  C8. Whatever the session, the units the loop hands to \<open>Write\<close> are, in order, those of
  the iterations it has run: each is the JSON serialization of the object with the single
  key \<open>"Records"\<close> followed by the two bytes CR LF, the value being the received batch in
  an iteration that received one and null in a keep-alive iteration. Units written
  earlier are untouched.
\<close>

theorem streamed_units_are_records_frames:
  "length (framesSince rw (writerOf (sendBucketNotification en (Some rw) session))) \<le> length session
   \<and> map Some (framesSince rw (writerOf (sendBucketNotification en (Some rw) session))) =
       map (\<lambda>s. recordsFrame en (selectedRecords s))
         (take (length (framesSince rw (writerOf (sendBucketNotification en (Some rw) session)))) session)
   \<and> take (length (written rw))
        (written (writerAfter rw (writerOf (sendBucketNotification en (Some rw) session)))) =
       written rw"
proof -
  obtain rw' n where
    rw': "writerOf (sendBucketNotification en (Some rw) session) = Some rw'"
    and n: "n \<le> length session"
    and fs: "map Some (written rw') =
               map Some (written rw) @ map (\<lambda>s. recordsFrame en (selectedRecords s)) (take n session)"
    using sendBucketNotification_frames [of en rw session] by blast
  let ?new = "map (\<lambda>s. recordsFrame en (selectedRecords s)) (take n session)"
  have len: "length (written rw') = length (written rw) + n"
    using arg_cong [OF fs, of length] n by simp
  have new: "map Some (drop (length (written rw)) (written rw')) = ?new"
    using arg_cong [OF fs, of "drop (length (written rw))"] by (simp add: drop_map)
  have old: "map Some (take (length (written rw)) (written rw')) = map Some (written rw)"
    using arg_cong [OF fs, of "take (length (written rw))"] by (simp add: take_map)
  have "take (length (written rw)) (written rw') = written rw"
    using old by (simp add: inj_map_eq_map)
  then show ?thesis
    using rw' n len new by (simp add: framesSince_def writerAfter_def)
qed

theorem streamed_units_are_records_frames_witness:
  "written (writerAfter
     \<lparr>response = None, commonHeaders = True, written = [], flushes = 0, isFlusher = True,
      writeErr = (\<lambda>n. None)\<rparr>
     (writerOf (sendBucketNotification (nodeEnv True None)
        (Some \<lparr>response = None, commonHeaders = True, written = [], flushes = 0, isFlusher = True,
               writeErr = (\<lambda>n. None)\<rparr>)
        [Received (Some [\<lparr>EventBucket = ''photos'', EventKey = ''img/a.png'',
                          EventName = ''s3:ObjectCreated:Put''\<rparr>]),
         KeepAlive]))) =
   [''{\"Records\":[{\"key\":\"img/a.png\"}]}'' @ [CHR 0x0D, CHR 0x0A],
    ''{\"Records\":null}'' @ [CHR 0x0D, CHR 0x0A]]"
  using streamed_units_are_records_frames
    [of "\<lparr>response = None, commonHeaders = True, written = [], flushes = 0, isFlusher = True,
          writeErr = (\<lambda>n. None)\<rparr>"
        "nodeEnv True None"
        "[Received (Some [\<lparr>EventBucket = ''photos'', EventKey = ''img/a.png'',
                          EventName = ''s3:ObjectCreated:Put''\<rparr>]),
          KeepAlive]"]
  by (simp add: writeNotification_def Write_def Flush_def dummyEvents_def crlf_def
        writerAfter_def nodeEnv_def marshalRecords_def)

text \<open>
  C9. Let the loop be waiting in \<open>select\<close> after any number of iterations. If no batch
  arrives before the keep-alive timer fires, the next unit handed to the client is the
  frame of the empty records (\<open>{"Records": null}\<close> followed by CR LF), whatever the session
  does later. At the start of a session this is the first frame of all, so it comes
  before any frame that carries an event.
\<close>

theorem keep_alive_writes_heartbeat:
  assumes "sendBucketNotification en w before = Waiting (Some rw1)"
    and "jsonMarshal en [''Records'' \<mapsto> None] = Inr bs"
  shows "take (Suc (length (written rw1)))
           (written (writerAfter rw1
              (writerOf (sendBucketNotification en w (before @ KeepAlive # later))))) =
         written rw1 @ [bs @ [CHR 0x0D, CHR 0x0A]]"
proof -
  have run: "sendBucketNotification en w (before @ KeepAlive # later) =
             sendBucketNotification en (Some rw1) (KeepAlive # later)"
    using assms(1) by (rule sendBucketNotification_append)
  let ?hb = "bs @ [CHR 0x0D, CHR 0x0A]"
  have "\<exists>rw2 fs. writerOf (sendBucketNotification en (Some rw1) (KeepAlive # later)) = Some rw2 \<and>
                  written rw2 = written rw1 @ ?hb # fs"
  proof (cases "isFlusher rw1 \<and> writeErr rw1 (length (written rw1)) = None")
    case False
    then show ?thesis
      using assms(2)
      by (auto simp: writeNotification_writer dummyEvents_def crlf_def)
  next
    case True
    let ?rw = "rw1\<lparr>written := written rw1 @ [?hb], flushes := Suc (flushes rw1)\<rparr>"
    from True assms(2) have step:
      "sendBucketNotification en (Some rw1) (KeepAlive # later) =
       sendBucketNotification en (Some ?rw) later"
      by (simp add: writeNotification_writer dummyEvents_def crlf_def)
    obtain rw2 fs where
      "writerOf (sendBucketNotification en (Some ?rw) later) = Some rw2"
      "written rw2 = written ?rw @ fs"
      using sendBucketNotification_extends [of en ?rw later] by blast
    then show ?thesis
      using step by simp
  qed
  then show ?thesis
    using run by (auto simp: writerAfter_def)
qed

theorem keep_alive_writes_heartbeat_witness:
  "take 1 (written (writerAfter
     \<lparr>response = None, commonHeaders = True, written = [], flushes = 0, isFlusher = True,
      writeErr = (\<lambda>n. None)\<rparr>
     (writerOf (sendBucketNotification (nodeEnv True None)
        (Some \<lparr>response = None, commonHeaders = True, written = [], flushes = 0, isFlusher = True,
               writeErr = (\<lambda>n. None)\<rparr>)
        ([] @ KeepAlive #
           [Received (Some [\<lparr>EventBucket = ''photos'', EventKey = ''img/a.png'',
                             EventName = ''s3:ObjectCreated:Put''\<rparr>])]))))) =
   [''{\"Records\":null}'' @ [CHR 0x0D, CHR 0x0A]]"
proof -
  have waiting: "sendBucketNotification (nodeEnv True None)
      (Some \<lparr>response = None, commonHeaders = True, written = [], flushes = 0, isFlusher = True,
             writeErr = (\<lambda>n. None)\<rparr>) [] =
    Waiting (Some \<lparr>response = None, commonHeaders = True, written = [], flushes = 0,
                   isFlusher = True, writeErr = (\<lambda>n. None)\<rparr>)"
    by simp
  have hb: "jsonMarshal (nodeEnv True None) [''Records'' \<mapsto> None] = Inr ''{\"Records\":null}''"
    by (simp add: nodeEnv_def marshalRecords_def)
  show ?thesis
    using keep_alive_writes_heartbeat [OF waiting hb]
    by simp
qed

subsection \<open>Failed listener registration\<close>

text \<open>
  C4. A listen request passes validation and registers its delivery channel; then
  \<open>AddBucketListenerConfig\<close> fails (the persist call fails on a distributed deployment).
  The handler writes the error response and returns, and its deferred calls remove the
  channel from the registry and close it: the registry of channels, the cached listener
  sequences and the durable stores are as they were before the request.
\<close>

theorem ListenBucketNotificationHandler_registration_fails:
  assumes "objectAPI en" and "checkAuth r = ErrNone"
    and "validateFilterValues en (queryPrefixes r) = ErrNone"
    and "validateFilterValues en (querySuffixes r) = ErrNone"
    and "checkEvents en (queryEvents r) = ErrNone"
    and "bucketInfoErr en (varsBucket r) = None"
    and "accountARN en r \<notin> listenerChans wld"
    and "globalIsDistXL en" and "persistListenerErr en (varsBucket r) = Some err"
  shows "ListenBucketNotificationHandler en r session w wld =
           Finished (w\<lparr>response := Some (ErrorResponse (toAPIErrorCode en err) (urlPath r))\<rparr>)
             (wld\<lparr>trace := trace wld @
                     [EvAddListenerChan (accountARN en r) None,
                      EvGetBucketListenerConfig (varsBucket r),
                      EvLock (varsBucket r) (opsCounter wld),
                      EvPersistListenerConfig (varsBucket r)
                        (listenerCfgs wld (varsBucket r) @ [listenerConfigOf en r]) (Some err),
                      EvUnlock (varsBucket r) (opsCounter wld),
                      EvRemoveListenerChan (accountARN en r),
                      EvCloseChan (accountARN en r)],
                   opsCounter := Suc (opsCounter wld)\<rparr>)"
proof -
  let ?arn = "accountARN en r"
  let ?wld1 = "wld\<lparr>trace := trace wld @ [EvAddListenerChan ?arn None],
                    listenerChans := insert ?arn (listenerChans wld)\<rparr>"
  have chan: "AddListenerChan ?arn wld = (None, ?wld1)"
    using assms(7) by (simp add: AddListenerChan_def logEvent_def)
  have add: "AddBucketListenerConfig en (varsBucket r) (Some (listenerConfigOf en r)) ?wld1 =
      (Some err,
       ?wld1\<lparr>trace := trace ?wld1 @
                 [EvGetBucketListenerConfig (varsBucket r),
                  EvLock (varsBucket r) (opsCounter ?wld1),
                  EvPersistListenerConfig (varsBucket r)
                    (listenerCfgs ?wld1 (varsBucket r) @ [listenerConfigOf en r]) (Some err),
                  EvUnlock (varsBucket r) (opsCounter ?wld1)],
               opsCounter := Suc (opsCounter ?wld1)\<rparr>)"
    using assms(8,9) by (rule Add_fail)
  have chans: "insert ?arn (listenerChans wld) - {?arn} = listenerChans wld"
    using assms(7) by auto
  show ?thesis
    using assms(1-6)
    by (simp add: ListenBucketNotificationHandler_def chan add writeErrorResponse_def
          RemoveListenerChan_def closeChan_def logEvent_def chans Let_def)
qed

theorem ListenBucketNotificationHandler_registration_fails_witness:
  "ListenBucketNotificationHandler (nodeEnv True (Some (ErrOther ''disk offline'')))
     \<lparr>urlPath = ''/photos'', varsBucket = ''photos'', checkAuth = ErrNone,
      queryPrefixes = [''img/''], querySuffixes = [''.png''],
      queryEvents = [''s3:ObjectCreated:*''], timeNow = 7\<rparr>
     [KeepAlive]
     \<lparr>response = None, commonHeaders = False, written = [], flushes = 0, isFlusher = True,
      writeErr = (\<lambda>n. None)\<rparr>
     freshWorld =
   Finished
     \<lparr>response = Some (ErrorResponse (ErrCode 1) ''/photos''), commonHeaders = False,
      written = [], flushes = 0, isFlusher = True, writeErr = (\<lambda>n. None)\<rparr>
     (freshWorld
        \<lparr>trace :=
           [EvAddListenerChan ''arn:minio:sns:us-east-1:7:listen-10.0.0.1:9000'' None,
            EvGetBucketListenerConfig ''photos'',
            EvLock ''photos'' 0,
            EvPersistListenerConfig ''photos''
              [\<lparr>TopicConfig =
                  \<lparr>TopicARN = ''arn:minio:sns:us-east-1:7:listen-10.0.0.1:9000'',
                   ServiceConfig = \<lparr>Events = [''s3:ObjectCreated:*''],
                              FilterKey = \<lparr>FilterRules =
                                [\<lparr>Name = ''prefix'', Value = ''img/''\<rparr>,
                                 \<lparr>Name = ''suffix'', Value = ''.png''\<rparr>]\<rparr>,
                              ID = ''sns-7''\<rparr>\<rparr>,
                TargetServer = ''10.0.0.1:9000''\<rparr>]
              (Some (ErrOther ''disk offline'')),
            EvUnlock ''photos'' 0,
            EvRemoveListenerChan ''arn:minio:sns:us-east-1:7:listen-10.0.0.1:9000'',
            EvCloseChan ''arn:minio:sns:us-east-1:7:listen-10.0.0.1:9000''],
         opsCounter := 1\<rparr>)"
proof -
  let ?en = "nodeEnv True (Some (ErrOther ''disk offline''))"
  let ?r = "\<lparr>urlPath = ''/photos'', varsBucket = ''photos'', checkAuth = ErrNone,
      queryPrefixes = [''img/''], querySuffixes = [''.png''],
      queryEvents = [''s3:ObjectCreated:*''], timeNow = 7\<rparr>"
  have h1: "objectAPI ?en" by (simp add: nodeEnv_def)
  have h2: "checkAuth ?r = ErrNone" by simp
  have h3: "validateFilterValues ?en (queryPrefixes ?r) = ErrNone" by (simp add: nodeEnv_def)
  have h4: "validateFilterValues ?en (querySuffixes ?r) = ErrNone" by (simp add: nodeEnv_def)
  have h5: "checkEvents ?en (queryEvents ?r) = ErrNone" by (simp add: nodeEnv_def)
  have h6: "bucketInfoErr ?en (varsBucket ?r) = None" by (simp add: nodeEnv_def)
  have h7: "accountARN ?en ?r \<notin> listenerChans freshWorld" by (simp add: freshWorld_def)
  have h8: "globalIsDistXL ?en" by (simp add: nodeEnv_def)
  have h9: "persistListenerErr ?en (varsBucket ?r) = Some (ErrOther ''disk offline'')"
    by (simp add: nodeEnv_def)
  have seven: "decimalNat 7 = ''7''"
    by code_simp
  show ?thesis
    using ListenBucketNotificationHandler_registration_fails
            [OF h1 h2 h3 h4 h5 h6 h7 h8 h9, of "[KeepAlive]"
              "\<lparr>response = None, commonHeaders = False, written = [], flushes = 0,
                isFlusher = True, writeErr = (\<lambda>n. None)\<rparr>"]
    by (simp add: nodeEnv_def freshWorld_def accountARN_def accountID_def formatInt_def seven
          listenerConfigOf_def filterRulesOf_def)
qed

end
